theory Spec2Isabelle
  imports Complex_Main "HOL-Library.Multiset"
begin

section \<open>The trust fund ledger of \<^verbatim>\<open>trust_fund_flask.py\<close>\<close>

text \<open>
  The application keeps two tables, \<^verbatim>\<open>Donor\<close> and \<^verbatim>\<open>Distribution\<close>, and serves four
  routes: \<^verbatim>\<open>/\<close>, \<^verbatim>\<open>/donate\<close>, \<^verbatim>\<open>/distribute\<close> and \<^verbatim>\<open>/api/stats\<close>. Each view function is
  modelled as a function from the store to a response, the flashed messages and the store
  after the request.

  Amounts are Python floats in the source. They are modelled in exact arithmetic, as
  \<^typ>\<open>real\<close>: rounding, infinities and NaN of binary64 are outside this model.
\<close>

subsection \<open>Python values\<close>

text \<open>
  Form fields are read with a default, so one expression may yield \<^verbatim>\<open>None\<close>, a string or
  the integer \<^verbatim>\<open>0\<close>. The values that occur are collected in one datatype.
\<close>

datatype pyval = PNone | PStr string | PInt int | PFloat real

text \<open>Truthiness, as \<^verbatim>\<open>all([...])\<close> tests it.\<close>

fun truthy :: "pyval \<Rightarrow> bool" where
  "truthy PNone = False"
| "truthy (PStr s) = (s \<noteq> [])"
| "truthy (PInt n) = (n \<noteq> 0)"
| "truthy (PFloat x) = (x \<noteq> 0)"

text \<open>\<^verbatim>\<open>all(xs)\<close>: every element is truthy.\<close>

definition py_all :: "pyval list \<Rightarrow> bool" where
  "py_all vs = list_all truthy vs"

text \<open>\<^verbatim>\<open>sum(xs)\<close>: a left fold of \<^verbatim>\<open>+\<close> starting from 0.\<close>

definition py_sum :: "real list \<Rightarrow> real" where
  "py_sum xs = foldl (+) 0 xs"

datatype exn = ValueError string | TypeError

text \<open>
  \<^verbatim>\<open>float(v)\<close>. The builtin's reading of a string is the parameter \<open>to_float\<close>
  (\<open>None\<close> where the builtin raises \<^verbatim>\<open>ValueError\<close>); an integer converts, \<^verbatim>\<open>None\<close> is a
  \<^verbatim>\<open>TypeError\<close>.
\<close>

fun py_float :: "(string \<Rightarrow> real option) \<Rightarrow> pyval \<Rightarrow> exn + real" where
  "py_float to_float PNone = Inl TypeError"
| "py_float to_float (PStr s) = (case to_float s of None \<Rightarrow> Inl (ValueError s) | Some x \<Rightarrow> Inr x)"
| "py_float to_float (PInt n) = Inr (of_int n)"
| "py_float to_float (PFloat x) = Inr x"

subsection \<open>Database models\<close>

record Donor =
  ident :: nat
  name :: pyval
  email :: pyval
  amount :: real
  category :: pyval
  payment_method :: pyval
  payment_status :: string
  date :: nat
  message :: pyval

record Distribution =
  ident :: nat
  beneficiary_name :: pyval
  amount :: real
  category :: pyval
  date :: nat
  purpose :: pyval
  status :: string
  payment_mode :: pyval

text \<open>The database: the rows of the two tables, in insertion order.\<close>

record store =
  donor_rows :: "Donor list"
  distribution_rows :: "Distribution list"

definition empty_store :: store where
  "empty_store = \<lparr>donor_rows = [], distribution_rows = []\<rparr>"

subsection \<open>Requests and responses\<close>

datatype http_method = GET | POST

record request = request_method :: http_method  form :: "string \<rightharpoonup> string"

text \<open>\<^verbatim>\<open>form.get(field, default)\<close>; a field that is present is a string (\<open>dflt\<close> is the default).\<close>

definition get_form_data :: "(string \<rightharpoonup> string) \<Rightarrow> string \<Rightarrow> pyval \<Rightarrow> pyval" where
  "get_form_data frm fld dflt = (case frm fld of None \<Rightarrow> dflt | Some s \<Rightarrow> PStr s)"

text \<open>
  The flashed messages. The two formatted amounts of the balance message and the text of
  a caught exception are kept as arguments.
\<close>

datatype msg =
    Fill_required_fields
  | Complete_upi_payment
  | Redirect_to_gateway
  | Complete_net_banking
  | Error_processing_donation exn
  | Exceeds_available_balance real real
  | Distribution_recorded
  | Error_recording_distribution exn

type_synonym flash = "msg \<times> string"

datatype endpoint = Index_page | Donate_page | Distribute_page

record bucket =
  donations :: real
  distributions :: real

record index_view =
  view_donations :: "Donor list"
  view_distributions :: "Distribution list"
  view_total_donations :: real
  view_total_distributions :: real
  view_balance :: real
  view_categories :: "string \<rightharpoonup> bucket"

record stats =
  total_donations :: real
  total_distributions :: real
  balance :: real

datatype response =
    Redirect endpoint
  | Render_index index_view
  | Render_donate
  | Render_distribute
  | Jsonify stats

type_synonym outcome = "response \<times> flash list \<times> store"

subsection \<open>Queries\<close>

text \<open>
  \<^verbatim>\<open>order_by(text('date DESC'))\<close>: rows by descending date. \<^verbatim>\<open>filter_by(...)\<close> keeps the
  rows whose column equals the given value.
\<close>

definition donors_by_date_desc :: "store \<Rightarrow> Donor list" where
  "donors_by_date_desc st = rev (sort_key Donor.date (donor_rows st))"

definition distributions_by_date_desc :: "store \<Rightarrow> Distribution list" where
  "distributions_by_date_desc st = rev (sort_key Distribution.date (distribution_rows st))"

definition completed_donors :: "store \<Rightarrow> Donor list" where
  "completed_donors st = filter (\<lambda>d. payment_status d = ''completed'') (donor_rows st)"

definition completed_distributions :: "store \<Rightarrow> Distribution list" where
  "completed_distributions st = filter (\<lambda>d. status d = ''completed'') (distribution_rows st)"

subsection \<open>The home view\<close>

definition initial_categories :: "string \<rightharpoonup> bucket" where
  "initial_categories =
     [''education'' \<mapsto> \<lparr>donations = 0, distributions = 0\<rparr>,
      ''healthcare'' \<mapsto> \<lparr>donations = 0, distributions = 0\<rparr>,
      ''food'' \<mapsto> \<lparr>donations = 0, distributions = 0\<rparr>,
      ''shelter'' \<mapsto> \<lparr>donations = 0, distributions = 0\<rparr>,
      ''emergency'' \<mapsto> \<lparr>donations = 0, distributions = 0\<rparr>]"

text \<open>The two accumulation loops of \<^verbatim>\<open>index\<close>; a category that is no key is skipped.\<close>

fun add_donations :: "(string \<rightharpoonup> bucket) \<Rightarrow> Donor list \<Rightarrow> (string \<rightharpoonup> bucket)" where
  "add_donations categories [] = categories"
| "add_donations categories (donation # rest) =
     add_donations
       (case Donor.category donation of
          PStr c \<Rightarrow>
            (case categories c of
               Some b \<Rightarrow> categories(c \<mapsto> b\<lparr>donations := donations b + Donor.amount donation\<rparr>)
             | None \<Rightarrow> categories)
        | _ \<Rightarrow> categories)
       rest"

fun add_distributions :: "(string \<rightharpoonup> bucket) \<Rightarrow> Distribution list \<Rightarrow> (string \<rightharpoonup> bucket)" where
  "add_distributions categories [] = categories"
| "add_distributions categories (distribution # rest) =
     add_distributions
       (case Distribution.category distribution of
          PStr c \<Rightarrow>
            (case categories c of
               Some b \<Rightarrow>
                 categories(c \<mapsto> b\<lparr>distributions := distributions b + Distribution.amount distribution\<rparr>)
             | None \<Rightarrow> categories)
        | _ \<Rightarrow> categories)
       rest"

definition index_summary :: "store \<Rightarrow> index_view" where
  "index_summary st =
     (let donations = donors_by_date_desc st;
          distributions = distributions_by_date_desc st;
          total_donations = py_sum (map Donor.amount donations);
          total_distributions = py_sum (map Distribution.amount distributions);
          balance = total_donations - total_distributions;
          categories = add_distributions (add_donations initial_categories donations) distributions
      in \<lparr>view_donations = donations,
          view_distributions = distributions,
          view_total_donations = total_donations,
          view_total_distributions = total_distributions,
          view_balance = balance,
          view_categories = categories\<rparr>)"

definition index :: "store \<Rightarrow> outcome" where
  "index st = (Render_index (index_summary st), [], st)"

subsection \<open>Donations\<close>

definition donate :: "(string \<Rightarrow> real option) \<Rightarrow> nat \<Rightarrow> request \<Rightarrow> store \<Rightarrow> outcome" where
  "donate to_float now req st =
     (if request_method req = POST then
        (let form_data = form req in
         case py_float to_float (get_form_data form_data ''amount'' (PInt 0)) of
           Inl e \<Rightarrow> (Redirect Donate_page, [(Error_processing_donation e, ''error'')], st)
         | Inr a \<Rightarrow>
             (let donor =
                    \<lparr>Donor.ident = Suc (length (donor_rows st)),
                     name = get_form_data form_data ''name'' PNone,
                     email = get_form_data form_data ''email'' PNone,
                     Donor.amount = a,
                     Donor.category = get_form_data form_data ''category'' PNone,
                     payment_method = get_form_data form_data ''payment_method'' (PStr ''upi''),
                     payment_status = ''pending'',
                     Donor.date = now,
                     message = get_form_data form_data ''message'' (PStr [])\<rparr>
              in if \<not> py_all [name donor, email donor, PFloat (Donor.amount donor), Donor.category donor]
                 then (Redirect Donate_page, [(Fill_required_fields, ''error'')], st)
                 else
                   (Redirect Index_page,
                    [(if payment_method donor = PStr ''upi'' then Complete_upi_payment
                      else if payment_method donor = PStr ''card'' then Redirect_to_gateway
                      else Complete_net_banking, ''info'')],
                    st\<lparr>donor_rows := donor_rows st @ [donor]\<rparr>)))
      else (Render_donate, [], st))"

subsection \<open>Distributions\<close>

text \<open>The balance that \<^verbatim>\<open>distribute\<close> computes before its check.\<close>

definition current_balance :: "store \<Rightarrow> real" where
  "current_balance st =
     (let donations = completed_donors st;
          distributions = completed_distributions st;
          total_donations = py_sum (map Donor.amount donations);
          total_distributions = py_sum (map Distribution.amount distributions)
      in total_donations - total_distributions)"

definition distribute :: "(string \<Rightarrow> real option) \<Rightarrow> nat \<Rightarrow> request \<Rightarrow> store \<Rightarrow> outcome" where
  "distribute to_float now req st =
     (if request_method req = POST then
        (let form_data = form req in
         case py_float to_float (get_form_data form_data ''amount'' (PInt 0)) of
           Inl e \<Rightarrow> (Redirect Distribute_page, [(Error_recording_distribution e, ''error'')], st)
         | Inr distribution_amount \<Rightarrow>
             if distribution_amount > current_balance st
             then (Redirect Distribute_page,
                   [(Exceeds_available_balance distribution_amount (current_balance st), ''error'')], st)
             else
               (let distribution =
                      \<lparr>Distribution.ident = Suc (length (distribution_rows st)),
                       beneficiary_name = get_form_data form_data ''beneficiary_name'' PNone,
                       Distribution.amount = distribution_amount,
                       Distribution.category = get_form_data form_data ''category'' PNone,
                       Distribution.date = now,
                       purpose = get_form_data form_data ''purpose'' PNone,
                       status = ''completed'',
                       payment_mode = get_form_data form_data ''payment_mode'' (PStr ''cash'')\<rparr>
                in if \<not> py_all [beneficiary_name distribution, PFloat (Distribution.amount distribution),
                                  Distribution.category distribution, purpose distribution]
                   then (Redirect Distribute_page, [(Fill_required_fields, ''error'')], st)
                   else
                     (Redirect Index_page, [(Distribution_recorded, ''success'')],
                      st\<lparr>distribution_rows := distribution_rows st @ [distribution]\<rparr>)))
      else (Render_distribute, [], st))"

subsection \<open>Statistics\<close>

definition stats_summary :: "store \<Rightarrow> stats" where
  "stats_summary st =
     (let donations = completed_donors st;
          distributions = completed_distributions st;
          total_donations = py_sum (map Donor.amount donations);
          total_distributions = py_sum (map Distribution.amount distributions)
      in \<lparr>total_donations = total_donations,
          total_distributions = total_distributions,
          balance = total_donations - total_distributions\<rparr>)"

definition get_stats :: "store \<Rightarrow> outcome" where
  "get_stats st = (Jsonify (stats_summary st), [], st)"

subsection \<open>Reachable stores\<close>

text \<open>
  The stores that the four view functions produce from the empty database, for any
  sequence of requests at any times.
\<close>

inductive reachable :: "(string \<Rightarrow> real option) \<Rightarrow> store \<Rightarrow> bool"
  for to_float :: "string \<Rightarrow> real option" where
  reachable_empty: "reachable to_float empty_store"
| reachable_index: "reachable to_float st \<Longrightarrow> reachable to_float (snd (snd (index st)))"
| reachable_donate:
    "reachable to_float st \<Longrightarrow> reachable to_float (snd (snd (donate to_float now req st)))"
| reachable_distribute:
    "reachable to_float st \<Longrightarrow> reachable to_float (snd (snd (distribute to_float now req st)))"
| reachable_get_stats: "reachable to_float st \<Longrightarrow> reachable to_float (snd (snd (get_stats st)))"

subsection \<open>A reader of decimal strings for the concrete runs\<close>

text \<open>
  Optional minus sign and a nonempty run of decimal digits; everything else is refused.
  It agrees with \<^verbatim>\<open>float\<close> on the strings it accepts and on the empty string.
\<close>

definition digit_of :: "char \<Rightarrow> nat option" where
  "digit_of c =
     map_of [(CHR ''0'', 0), (CHR ''1'', 1), (CHR ''2'', 2), (CHR ''3'', 3), (CHR ''4'', 4),
             (CHR ''5'', 5), (CHR ''6'', 6), (CHR ''7'', 7), (CHR ''8'', 8), (CHR ''9'', 9)] c"

fun digits_value :: "nat \<Rightarrow> string \<Rightarrow> nat option" where
  "digits_value acc [] = Some acc"
| "digits_value acc (c # cs) =
     (case digit_of c of None \<Rightarrow> None | Some d \<Rightarrow> digits_value (10 * acc + d) cs)"

definition decimal_float :: "string \<Rightarrow> real option" where
  "decimal_float s =
     (case s of
        [] \<Rightarrow> None
      | c # cs \<Rightarrow>
          if c = CHR ''-'' then (if cs = [] then None else map_option (\<lambda>n. - real n) (digits_value 0 cs))
          else map_option real (digits_value 0 s))"

subsection \<open>Concrete requests and stores\<close>

definition post :: "(string \<rightharpoonup> string) \<Rightarrow> request" where
  "post f = \<lparr>request_method = POST, form = f\<rparr>"

definition donation_form :: "string \<Rightarrow> (string \<rightharpoonup> string)" where
  "donation_form amt =
     [''name'' \<mapsto> ''Asha'', ''email'' \<mapsto> ''asha@example.org'', ''amount'' \<mapsto> amt,
      ''category'' \<mapsto> ''education'']"

definition distribution_form :: "string \<Rightarrow> (string \<rightharpoonup> string)" where
  "distribution_form amt =
     [''beneficiary_name'' \<mapsto> ''Ravi'', ''amount'' \<mapsto> amt, ''category'' \<mapsto> ''food'',
      ''purpose'' \<mapsto> ''meals'']"

definition donor_row :: "nat \<Rightarrow> real \<Rightarrow> string \<Rightarrow> string \<Rightarrow> Donor" where
  "donor_row i a c s =
     \<lparr>Donor.ident = i, name = PStr ''Asha'', email = PStr ''asha@example.org'', Donor.amount = a,
      Donor.category = PStr c, payment_method = PStr ''upi'', payment_status = s,
      Donor.date = i, message = PStr []\<rparr>"


text \<open>One completed donation of 1000 for education and no distribution.\<close>

definition funded_store :: store where
  "funded_store =
     \<lparr>donor_rows = [donor_row 1 1000 ''education'' ''completed''], distribution_rows = []\<rparr>"



text \<open>The store after a donation of 1000 and a distribution of -5, from the empty database.\<close>

definition after_two_posts :: store where
  "after_two_posts =
     snd (snd (distribute decimal_float 2 (post (distribution_form ''-5''))
       (snd (snd (donate decimal_float 1 (post (donation_form ''1000'')) empty_store)))))"

section \<open>Properties\<close>

subsection \<open>Summation\<close>







subsection \<open>The balance check of \<^verbatim>\<open>distribute\<close>\<close>

lemma decimal_float_1000: "decimal_float ''1000'' = Some 1000"
  by (simp add: decimal_float_def digit_of_def)

lemma decimal_float_1001: "decimal_float ''1001'' = Some 1001"
  by (simp add: decimal_float_def digit_of_def)

lemma current_balance_funded: "current_balance funded_store = 1000"
  by (simp add: current_balance_def completed_donors_def completed_distributions_def
      funded_store_def donor_row_def py_sum_def)



subsection \<open>The home view and its categories\<close>





















subsection \<open>Statuses in reachable stores\<close>

lemma donate_store:
  "distribution_rows (snd (snd (donate to_float now req st))) = distribution_rows st \<and>
   (\<forall>d \<in> set (donor_rows (snd (snd (donate to_float now req st)))).
      d \<in> set (donor_rows st) \<or> payment_status d = ''pending'')"
  by (simp add: donate_def Let_def split: sum.splits)

lemma distribute_store:
  "donor_rows (snd (snd (distribute to_float now req st))) = donor_rows st \<and>
   (\<forall>d \<in> set (distribution_rows (snd (snd (distribute to_float now req st)))).
      d \<in> set (distribution_rows st) \<or> status d = ''completed'')"
  by (simp add: distribute_def Let_def split: sum.splits)

lemma reachable_invariant:
  assumes "reachable to_float st"
  shows "(\<forall>d \<in> set (donor_rows st). payment_status d = ''pending'') \<and>
         (\<forall>t \<in> set (distribution_rows st). status t = ''completed'')"
  using assms
proof (induction rule: reachable.induct)
  case reachable_empty
  show ?case by (simp add: empty_store_def)
next
  case (reachable_index st)
  then show ?case by (simp add: index_def)
next
  case (reachable_donate st now req)
  from donate_store [of to_float now req st] reachable_donate.IH show ?case
    by auto
next
  case (reachable_distribute st now req)
  from distribute_store [of to_float now req st] reachable_distribute.IH show ?case
    by auto
next
  case (reachable_get_stats st)
  then show ?case by (simp add: get_stats_def)
qed

lemma no_completed_donors:
  assumes "\<forall>d \<in> set (donor_rows st). payment_status d = ''pending''"
  shows "completed_donors st = []"
  using assms by (auto simp add: completed_donors_def filter_empty_conv)

lemma all_completed_distributions:
  assumes "\<forall>t \<in> set (distribution_rows st). status t = ''completed''"
  shows "completed_distributions st = distribution_rows st"
  using assms by (simp add: completed_distributions_def)

text \<open>
  C3. In every store reachable from the empty database through the four view functions,
  every donor row has payment status pending and every distribution row has status
  completed. So no donor row is completed: the total of donations that the balance check
  and the statistics compute is 0, and the balance of the check is 0 minus the total of
  the distributions.
\<close>

theorem reachable_statuses:
  assumes "reachable to_float st"
  shows "(\<forall>d \<in> set (donor_rows st). payment_status d = ''pending'')
       \<and> (\<forall>t \<in> set (distribution_rows st). status t = ''completed'')
       \<and> completed_donors st = []
       \<and> py_sum (map Donor.amount (completed_donors st)) = 0
       \<and> current_balance st = 0 - py_sum (map Distribution.amount (distribution_rows st))
       \<and> total_donations (stats_summary st) = 0"
proof -
  from reachable_invariant [OF assms]
  have pending: "\<forall>d \<in> set (donor_rows st). payment_status d = ''pending''"
    and completed: "\<forall>t \<in> set (distribution_rows st). status t = ''completed''"
    by simp_all
  note none = no_completed_donors [OF pending]
  note all = all_completed_distributions [OF completed]
  have sum0: "py_sum (map Donor.amount (completed_donors st)) = 0"
    by (simp add: none py_sum_def)
  have bal: "current_balance st = 0 - py_sum (map Distribution.amount (distribution_rows st))"
    by (simp add: current_balance_def Let_def sum0 all)
  have tot: "total_donations (stats_summary st) = 0"
    by (simp add: stats_summary_def Let_def sum0)
  from pending completed none sum0 bal tot show ?thesis
    by (intro conjI)
qed

text \<open>
  A donation of 1000 and then a distribution of -5 from the empty database: one pending
  donor row, one completed distribution row, a donation total of 0 and a balance of 5.
\<close>

lemma decimal_float_minus_5: "decimal_float ''-5'' = Some (- 5)"
  by (simp add: decimal_float_def digit_of_def)

lemma after_donation:
  "snd (snd (donate decimal_float 1 (post (donation_form ''1000'')) empty_store)) =
     \<lparr>donor_rows =
        [\<lparr>Donor.ident = 1, name = PStr ''Asha'', email = PStr ''asha@example.org'',
          Donor.amount = 1000, Donor.category = PStr ''education'', payment_method = PStr ''upi'',
          payment_status = ''pending'', Donor.date = 1, message = PStr []\<rparr>],
      distribution_rows = []\<rparr>"
  by (simp add: donate_def post_def donation_form_def get_form_data_def decimal_float_1000
      py_all_def empty_store_def)

lemma after_two_posts_rows:
  "after_two_posts =
     \<lparr>donor_rows =
        [\<lparr>Donor.ident = 1, name = PStr ''Asha'', email = PStr ''asha@example.org'',
          Donor.amount = 1000, Donor.category = PStr ''education'', payment_method = PStr ''upi'',
          payment_status = ''pending'', Donor.date = 1, message = PStr []\<rparr>],
      distribution_rows =
        [\<lparr>Distribution.ident = 1, beneficiary_name = PStr ''Ravi'', Distribution.amount = - 5,
          Distribution.category = PStr ''food'', Distribution.date = 2, purpose = PStr ''meals'',
          status = ''completed'', payment_mode = PStr ''cash''\<rparr>]\<rparr>"
  unfolding after_two_posts_def after_donation
  by (simp add: distribute_def post_def distribution_form_def get_form_data_def
      decimal_float_minus_5 py_all_def current_balance_def completed_donors_def
      completed_distributions_def py_sum_def)

lemma reachable_after_two_posts: "reachable decimal_float after_two_posts"
  unfolding after_two_posts_def
  by (intro reachable_distribute reachable_donate reachable_empty)

theorem reachable_statuses_witness:
  "reachable decimal_float after_two_posts
   \<and> length (donor_rows after_two_posts) = 1
   \<and> length (distribution_rows after_two_posts) = 1
   \<and> list_all (\<lambda>d. payment_status d = ''pending'') (donor_rows after_two_posts)
   \<and> list_all (\<lambda>t. status t = ''completed'') (distribution_rows after_two_posts)
   \<and> completed_donors after_two_posts = []
   \<and> current_balance after_two_posts = 5
   \<and> total_donations (stats_summary after_two_posts) = 0"
proof -
  note t = reachable_statuses [OF reachable_after_two_posts]
  from t have p: "list_all (\<lambda>d. payment_status d = ''pending'') (donor_rows after_two_posts)"
    and c: "list_all (\<lambda>t. status t = ''completed'') (distribution_rows after_two_posts)"
    by (simp_all add: list_all_iff)
  from t have n: "completed_donors after_two_posts = []"
    and z: "total_donations (stats_summary after_two_posts) = 0"
    and b: "current_balance after_two_posts =
        0 - py_sum (map Distribution.amount (distribution_rows after_two_posts))"
    by simp_all
  have b': "current_balance after_two_posts = 5"
    unfolding b by (simp add: after_two_posts_rows py_sum_def)
  have l: "length (donor_rows after_two_posts) = 1" "length (distribution_rows after_two_posts) = 1"
    by (simp_all add: after_two_posts_rows)
  from reachable_after_two_posts l p c n b' z show ?thesis
    by (intro conjI)
qed

subsection \<open>Requests that are turned down\<close>

lemma post_method: "request_method (post f) = POST"
  by (simp add: post_def)

text \<open>
  C6. When the amount of a POST to \<^verbatim>\<open>/distribute\<close> is strictly greater than the balance of
  the completed records, the request writes nothing: the store after the request is the
  store before it, both tables included, and the response sends back to the form.
\<close>

theorem rejected_distribution_no_write:
  assumes "request_method req = POST"
    and "py_float to_float (get_form_data (form req) ''amount'' (PInt 0)) = Inr a"
    and "a > current_balance st"
  shows "snd (snd (distribute to_float now req st)) = st
       \<and> donor_rows (snd (snd (distribute to_float now req st))) = donor_rows st
       \<and> distribution_rows (snd (snd (distribute to_float now req st))) = distribution_rows st
       \<and> fst (distribute to_float now req st) = Redirect Distribute_page"
  using assms by (simp add: distribute_def)

text \<open>
  A distribution of 1001 against a balance of 1000 leaves the store as it was.
\<close>

theorem rejected_distribution_no_write_witness:
  "request_method (post (distribution_form ''1001'')) = POST
   \<and> py_float decimal_float
        (get_form_data (form (post (distribution_form ''1001''))) ''amount'' (PInt 0)) = Inr 1001
   \<and> 1001 > current_balance funded_store
   \<and> snd (snd (distribute decimal_float 7 (post (distribution_form ''1001'')) funded_store)) =
       funded_store
   \<and> distribution_rows
        (snd (snd (distribute decimal_float 7 (post (distribution_form ''1001'')) funded_store))) = []"
proof -
  have a: "py_float decimal_float
        (get_form_data (form (post (distribution_form ''1001''))) ''amount'' (PInt 0)) = Inr 1001"
    by (simp add: post_def distribution_form_def get_form_data_def decimal_float_1001)
  have g: "1001 > current_balance funded_store"
    by (simp add: current_balance_funded)
  note t = rejected_distribution_no_write [OF post_method a g, of 7]
  from t have s: "snd (snd (distribute decimal_float 7 (post (distribution_form ''1001'')) funded_store)) =
       funded_store"
    by simp
  have r: "distribution_rows
        (snd (snd (distribute decimal_float 7 (post (distribution_form ''1001'')) funded_store))) = []"
    unfolding s by (simp add: funded_store_def)
  from post_method a g s r show ?thesis
    by (intro conjI)
qed

text \<open>
  C10. The balance check of \<^verbatim>\<open>distribute\<close> comes before the check of the required fields:
  a POST whose amount is strictly greater than the balance and that lacks the beneficiary
  name, the category or the purpose gets the balance message, not the message about the
  required fields, and the store is unchanged.
\<close>

theorem balance_check_before_required_fields:
  assumes "request_method req = POST"
    and "py_float to_float (get_form_data (form req) ''amount'' (PInt 0)) = Inr a"
    and "a > current_balance st"
    and "\<exists>f \<in> {''beneficiary_name'', ''category'', ''purpose''}.
           form req f = None \<or> form req f = Some []"
  shows "distribute to_float now req st =
           (Redirect Distribute_page,
            [(Exceeds_available_balance a (current_balance st), ''error'')], st)
       \<and> fst (snd (distribute to_float now req st)) \<noteq> [(Fill_required_fields, ''error'')]"
  using assms(1-3) by (simp add: distribute_def)

text \<open>
  A distribution of 1001 without a purpose, against a balance of 1000.
\<close>

theorem balance_check_before_required_fields_witness:
  "request_method (post ((distribution_form ''1001'')(''purpose'' := None))) = POST
   \<and> form (post ((distribution_form ''1001'')(''purpose'' := None))) ''purpose'' = None
   \<and> 1001 > current_balance funded_store
   \<and> distribute decimal_float 7 (post ((distribution_form ''1001'')(''purpose'' := None))) funded_store =
       (Redirect Distribute_page, [(Exceeds_available_balance 1001 1000, ''error'')], funded_store)"
proof -
  have a: "py_float decimal_float
        (get_form_data (form (post ((distribution_form ''1001'')(''purpose'' := None)))) ''amount'' (PInt 0))
        = Inr 1001"
    by (simp add: post_def distribution_form_def get_form_data_def decimal_float_1001)
  have g: "1001 > current_balance funded_store"
    by (simp add: current_balance_funded)
  have p: "form (post ((distribution_form ''1001'')(''purpose'' := None))) ''purpose'' = None"
    by (simp add: post_def)
  then have m: "\<exists>f \<in> {''beneficiary_name'', ''category'', ''purpose''}.
      form (post ((distribution_form ''1001'')(''purpose'' := None))) f = None \<or>
      form (post ((distribution_form ''1001'')(''purpose'' := None))) f = Some []"
    by blast
  note t = balance_check_before_required_fields [OF post_method a g m, of 7]
  from t have d: "distribute decimal_float 7 (post ((distribution_form ''1001'')(''purpose'' := None))) funded_store =
       (Redirect Distribute_page, [(Exceeds_available_balance 1001 1000, ''error'')], funded_store)"
    by (simp add: current_balance_funded)
  from post_method p g d show ?thesis
    by (intro conjI)
qed

lemma decimal_float_0: "decimal_float ''0'' = Some 0"
  by (simp add: decimal_float_def digit_of_def)

text \<open>
  C9. A POST to \<^verbatim>\<open>/donate\<close> whose amount is absent (the default 0 is taken) or reads as
  the number 0 gets the message about the required fields and writes nothing, whatever the
  other fields are.
\<close>

theorem zero_amount_donation_rejected:
  assumes "request_method req = POST"
    and "form req ''amount'' = None \<or> (\<exists>s. form req ''amount'' = Some s \<and> to_float s = Some 0)"
  shows "donate to_float now req st =
           (Redirect Donate_page, [(Fill_required_fields, ''error'')], st)"
  using assms by (auto simp add: donate_def get_form_data_def py_all_def)

text \<open>
  A donation with the amount 0, and one with no amount field.
\<close>

theorem zero_amount_donation_rejected_witness:
  "request_method (post (donation_form ''0'')) = POST
   \<and> form (post (donation_form ''0'')) ''amount'' = Some ''0''
   \<and> decimal_float ''0'' = Some 0
   \<and> donate decimal_float 3 (post (donation_form ''0'')) funded_store =
       (Redirect Donate_page, [(Fill_required_fields, ''error'')], funded_store)
   \<and> form (post ((donation_form ''1000'')(''amount'' := None))) ''amount'' = None
   \<and> donate decimal_float 3 (post ((donation_form ''1000'')(''amount'' := None))) funded_store =
       (Redirect Donate_page, [(Fill_required_fields, ''error'')], funded_store)"
proof -
  have f0: "form (post (donation_form ''0'')) ''amount'' = Some ''0''"
    by (simp add: post_def donation_form_def)
  have f1: "form (post ((donation_form ''1000'')(''amount'' := None))) ''amount'' = None"
    by (simp add: post_def)
  from f0 decimal_float_0
  have h0: "form (post (donation_form ''0'')) ''amount'' = None \<or>
      (\<exists>s. form (post (donation_form ''0'')) ''amount'' = Some s \<and> decimal_float s = Some 0)"
    by simp
  from f1
  have h1: "form (post ((donation_form ''1000'')(''amount'' := None))) ''amount'' = None \<or>
      (\<exists>s. form (post ((donation_form ''1000'')(''amount'' := None))) ''amount'' = Some s \<and>
           decimal_float s = Some 0)"
    by simp
  note t0 = zero_amount_donation_rejected [OF post_method h0, of 3 funded_store]
  note t1 = zero_amount_donation_rejected [OF post_method h1, of 3 funded_store]
  from post_method f0 decimal_float_0 t0 f1 t1 show ?thesis
    by (intro conjI)
qed

subsection \<open>Incomplete submissions\<close>

lemma donate_invalid:
  assumes "request_method req = POST" and "to_float [] = None"
    and "(\<exists>f \<in> {''name'', ''email'', ''amount'', ''category''}.
            form req f = None \<or> form req f = Some [])
         \<or> (\<exists>s. form req ''amount'' = Some s \<and> to_float s = None)"
  shows "fst (donate to_float now req st) = Redirect Donate_page
       \<and> (\<exists>m. fst (snd (donate to_float now req st)) = [(m, ''error'')])
       \<and> snd (snd (donate to_float now req st)) = st"
proof (cases "py_float to_float (get_form_data (form req) ''amount'' (PInt 0))")
  case (Inl e)
  with assms(1) show ?thesis
    by (simp add: donate_def Let_def)
next
  case (Inr a)
  have "\<not> py_all [get_form_data (form req) ''name'' PNone, get_form_data (form req) ''email'' PNone,
                   PFloat a, get_form_data (form req) ''category'' PNone]"
    using assms(2,3) Inr
    by (auto simp add: get_form_data_def py_all_def split: option.splits)
  with assms(1) Inr show ?thesis
    by (simp add: donate_def Let_def)
qed

lemma distribute_invalid:
  assumes "request_method req = POST" and "to_float [] = None"
    and "(\<exists>f \<in> {''beneficiary_name'', ''amount'', ''category'', ''purpose''}.
            form req f = None \<or> form req f = Some [])
         \<or> (\<exists>s. form req ''amount'' = Some s \<and> to_float s = None)"
  shows "fst (distribute to_float now req st) = Redirect Distribute_page
       \<and> (\<exists>m. fst (snd (distribute to_float now req st)) = [(m, ''error'')])
       \<and> snd (snd (distribute to_float now req st)) = st"
proof (cases "py_float to_float (get_form_data (form req) ''amount'' (PInt 0))")
  case (Inl e)
  with assms(1) show ?thesis
    by (simp add: distribute_def Let_def)
next
  case (Inr a)
  have "\<not> py_all [get_form_data (form req) ''beneficiary_name'' PNone, PFloat a,
                   get_form_data (form req) ''category'' PNone,
                   get_form_data (form req) ''purpose'' PNone]"
    using assms(2,3) Inr
    by (auto simp add: get_form_data_def py_all_def split: option.splits)
  with assms(1) Inr show ?thesis
    by (simp add: distribute_def Let_def)
qed

text \<open>
  C7. Take a POST, and let \<^verbatim>\<open>float\<close> refuse the empty string, as the builtin does. If one of
  name, email, amount and category is absent or empty, or the amount is no number, then
  \<^verbatim>\<open>donate\<close> flashes one message of category error, sends back to its form and leaves the
  store unchanged. If one of beneficiary name, amount, category and purpose is absent or
  empty, or the amount is no number, then \<^verbatim>\<open>distribute\<close> does the same.
\<close>

theorem invalid_submission_no_write:
  assumes "request_method req = POST" and "to_float [] = None"
  shows "((\<exists>f \<in> {''name'', ''email'', ''amount'', ''category''}.
             form req f = None \<or> form req f = Some [])
          \<or> (\<exists>s. form req ''amount'' = Some s \<and> to_float s = None) \<longrightarrow>
            fst (donate to_float now req st) = Redirect Donate_page
            \<and> (\<exists>m. fst (snd (donate to_float now req st)) = [(m, ''error'')])
            \<and> snd (snd (donate to_float now req st)) = st)
       \<and> ((\<exists>f \<in> {''beneficiary_name'', ''amount'', ''category'', ''purpose''}.
             form req f = None \<or> form req f = Some [])
          \<or> (\<exists>s. form req ''amount'' = Some s \<and> to_float s = None) \<longrightarrow>
            fst (distribute to_float now req st) = Redirect Distribute_page
            \<and> (\<exists>m. fst (snd (distribute to_float now req st)) = [(m, ''error'')])
            \<and> snd (snd (distribute to_float now req st)) = st)"
proof (intro conjI impI)
  assume "(\<exists>f \<in> {''name'', ''email'', ''amount'', ''category''}.
             form req f = None \<or> form req f = Some [])
          \<or> (\<exists>s. form req ''amount'' = Some s \<and> to_float s = None)"
  with assms show "fst (donate to_float now req st) = Redirect Donate_page"
    and "\<exists>m. fst (snd (donate to_float now req st)) = [(m, ''error'')]"
    and "snd (snd (donate to_float now req st)) = st"
    using donate_invalid [where to_float = to_float and req = req and now = now and st = st]
    by blast+
next
  assume "(\<exists>f \<in> {''beneficiary_name'', ''amount'', ''category'', ''purpose''}.
             form req f = None \<or> form req f = Some [])
          \<or> (\<exists>s. form req ''amount'' = Some s \<and> to_float s = None)"
  with assms show "fst (distribute to_float now req st) = Redirect Distribute_page"
    and "\<exists>m. fst (snd (distribute to_float now req st)) = [(m, ''error'')]"
    and "snd (snd (distribute to_float now req st)) = st"
    using distribute_invalid [where to_float = to_float and req = req and now = now and st = st]
    by blast+
qed

lemma decimal_float_empty: "decimal_float [] = None"
  by (simp add: decimal_float_def)

lemma decimal_float_abc: "decimal_float ''abc'' = None"
  by (simp add: decimal_float_def digit_of_def)

text \<open>
  A form whose amount is no number and whose purpose is empty, sent to both routes.
\<close>

theorem invalid_submission_no_write_witness:
  "request_method (post ((donation_form ''abc'')(''purpose'' \<mapsto> []))) = POST
   \<and> decimal_float [] = None
   \<and> form (post ((donation_form ''abc'')(''purpose'' \<mapsto> []))) ''amount'' = Some ''abc''
   \<and> decimal_float ''abc'' = None
   \<and> form (post ((donation_form ''abc'')(''purpose'' \<mapsto> []))) ''purpose'' = Some []
   \<and> snd (snd (donate decimal_float 4 (post ((donation_form ''abc'')(''purpose'' \<mapsto> []))) funded_store))
       = funded_store
   \<and> fst (donate decimal_float 4 (post ((donation_form ''abc'')(''purpose'' \<mapsto> []))) funded_store)
       = Redirect Donate_page
   \<and> snd (snd (distribute decimal_float 4 (post ((donation_form ''abc'')(''purpose'' \<mapsto> []))) funded_store))
       = funded_store
   \<and> fst (distribute decimal_float 4 (post ((donation_form ''abc'')(''purpose'' \<mapsto> []))) funded_store)
       = Redirect Distribute_page"
proof -
  let ?req = "post ((donation_form ''abc'')(''purpose'' \<mapsto> []))"
  have m: "request_method ?req = POST"
    by (simp add: post_def)
  have a: "form ?req ''amount'' = Some ''abc''"
    by (simp add: post_def donation_form_def)
  have p: "form ?req ''purpose'' = Some []"
    by (simp add: post_def)
  from a decimal_float_abc
  have h1: "(\<exists>f \<in> {''name'', ''email'', ''amount'', ''category''}.
             form ?req f = None \<or> form ?req f = Some [])
          \<or> (\<exists>s. form ?req ''amount'' = Some s \<and> decimal_float s = None)"
    by blast
  from p
  have h2: "(\<exists>f \<in> {''beneficiary_name'', ''amount'', ''category'', ''purpose''}.
             form ?req f = None \<or> form ?req f = Some [])
          \<or> (\<exists>s. form ?req ''amount'' = Some s \<and> decimal_float s = None)"
    by blast
  note t = invalid_submission_no_write [where to_float = decimal_float, OF m decimal_float_empty, of 4 funded_store]
  from t h1 have d: "snd (snd (donate decimal_float 4 ?req funded_store)) = funded_store"
    "fst (donate decimal_float 4 ?req funded_store) = Redirect Donate_page"
    by blast+
  from t h2 have e: "snd (snd (distribute decimal_float 4 ?req funded_store)) = funded_store"
    "fst (distribute decimal_float 4 ?req funded_store) = Redirect Distribute_page"
    by blast+
  from m decimal_float_empty a decimal_float_abc p d e show ?thesis
    by (intro conjI)
qed

subsection \<open>The home view against the statistics\<close>








subsection \<open>The home view writes nothing\<close>



end
